theory Spec2Isabelle
  imports Main "HOL-Library.Sublist"
begin

section \<open>Strings\<close>

text \<open>
  Python strings are modelled as \<open>string\<close> (lists of 8-bit characters). The three string
  operations the addon uses are \<open>==\<close> (list equality), \<open>str.startswith\<close> and
  \<open>str.endswith\<close>; all three compare character by character.
\<close>

definition startswith :: "string \<Rightarrow> string \<Rightarrow> bool" where
  "startswith s p = (take (length p) s = p)"

definition endswith :: "string \<Rightarrow> string \<Rightarrow> bool" where
  "endswith s x = (length x \<le> length s \<and> drop (length s - length x) s = x)"

text \<open>ASCII lower-casing, as \<open>lower()\<close> acts on header names and on URL components.\<close>

definition lower_char :: "char \<Rightarrow> char" where
  "lower_char c =
     (let n = (of_char c :: nat) in if 65 \<le> n \<and> n \<le> 90 then char_of (n + 32) else c)"

definition lower :: "string \<Rightarrow> string" where
  "lower s = map lower_char s"

section \<open>Configuration\<close>

text \<open>
  The module-level constants. \<open>parsed\<close> is the value \<open>_parsed = urlparse(GATEWAY_URL)\<close>,
  of which the addon reads the attributes \<open>scheme\<close>, \<open>hostname\<close> and \<open>port\<close>;
  \<open>INTERCEPT_DOMAINS\<close> is the list left after splitting and stripping the environment
  variable.
\<close>

record parse_result =
  parsed_scheme :: string
  parsed_hostname :: "string option"
  parsed_port :: "int option"

record config =
  parsed :: parse_result
  GATEWAY_TOKEN :: string
  INTERCEPT_DOMAINS :: "string list"
  INTERCEPT_PATH_PREFIX :: string

text \<open>
  Python's \<open>a or b\<close> yields \<open>b\<close> when \<open>a\<close> is falsy: \<open>None\<close>, the empty string or the
  integer 0.
\<close>

definition GATEWAY_HOST :: "parse_result \<Rightarrow> string" where
  "GATEWAY_HOST p =
     (case parsed_hostname p of
        None \<Rightarrow> ''127.0.0.1''
      | Some h \<Rightarrow> if h = [] then ''127.0.0.1'' else h)"

definition GATEWAY_PORT :: "parse_result \<Rightarrow> int" where
  "GATEWAY_PORT p =
     (case parsed_port p of
        None \<Rightarrow> if parsed_scheme p = ''https'' then 443 else 80
      | Some n \<Rightarrow> if n = 0 then (if parsed_scheme p = ''https'' then 443 else 80) else n)"

definition GATEWAY_SCHEME :: "parse_result \<Rightarrow> string" where
  "GATEWAY_SCHEME p = (if parsed_scheme p = [] then ''http'' else parsed_scheme p)"

section \<open>Parsing the gateway URL\<close>

text \<open>
  \<open>urlparse\<close> belongs to Python's standard library, not to this repository. The model
  below follows \<open>urllib.parse\<close> on URLs of ASCII characters: leading spaces and control
  characters are stripped and every tab, carriage return and line feed is removed; the
  scheme is the text before the first colon when it starts with a letter and consists of
  scheme characters, lower-cased; the network location runs from \<open>//\<close> to the first of
  \<open>/ ? #\<close>, and one with an opening bracket but no closing one, or the reverse,
  raises \<open>ValueError\<close>; the host information is what follows the last \<open>@\<close>; host and
  port are separated at the first colon (or after a bracketed literal); an empty host or
  port reads as \<open>None\<close>; a port that is not a decimal number in 0..65535 raises
  \<open>ValueError\<close>. Not modelled: the library's check that the text between matching
  brackets is an IP address, and its normalisation check on non-ASCII network
  locations.
\<close>

datatype error = ValueError | KeyError | AttributeError

fun str_partition :: "char \<Rightarrow> string \<Rightarrow> string \<times> bool \<times> string" where
  "str_partition sep [] = ([], False, [])"
| "str_partition sep (c # cs) =
     (if c = sep then ([], True, cs)
      else (case str_partition sep cs of (a, found, b) \<Rightarrow>
              if found then (c # a, True, b) else (c # cs, False, [])))"

definition str_rpartition :: "char \<Rightarrow> string \<Rightarrow> string \<times> bool \<times> string" where
  "str_rpartition sep s =
     (case str_partition sep (rev s) of (a, found, b) \<Rightarrow>
        if found then (rev b, True, rev a) else ([], False, s))"

definition isalpha_ascii :: "char \<Rightarrow> bool" where
  "isalpha_ascii c =
     (let n = (of_char c :: nat) in (65 \<le> n \<and> n \<le> 90) \<or> (97 \<le> n \<and> n \<le> 122))"

definition isdigit_ascii :: "char \<Rightarrow> bool" where
  "isdigit_ascii c = (let n = (of_char c :: nat) in 48 \<le> n \<and> n \<le> 57)"

definition scheme_char :: "char \<Rightarrow> bool" where
  "scheme_char c = (isalpha_ascii c \<or> isdigit_ascii c \<or> c \<in> set ''+-.'')"

definition int_of_digits :: "string \<Rightarrow> int" where
  "int_of_digits s = foldl (\<lambda>a c. 10 * a + (int (of_char c) - 48)) 0 s"

definition strip_unsafe :: "string \<Rightarrow> string" where
  "strip_unsafe url =
     filter (\<lambda>c. c \<notin> set [CHR 0x09, CHR 0x0D, CHR 0x0A])
       (dropWhile (\<lambda>c. (of_char c :: nat) \<le> 32) url)"

definition split_scheme :: "string \<Rightarrow> string \<times> string" where
  "split_scheme url =
     (case str_partition (CHR '':'') url of (pre, found, rest) \<Rightarrow>
        if found \<and> pre \<noteq> [] \<and> isalpha_ascii (hd pre) \<and> list_all scheme_char pre
        then (lower pre, rest) else ([], url))"

definition split_netloc :: "string \<Rightarrow> string" where
  "split_netloc rest =
     (if take 2 rest = ''//'' then takeWhile (\<lambda>c. c \<notin> set ''/?#'') (drop 2 rest) else [])"

definition unbalanced_brackets :: "string \<Rightarrow> bool" where
  "unbalanced_brackets netloc =
     ((CHR ''['' \<in> set netloc \<and> CHR '']'' \<notin> set netloc)
      \<or> (CHR '']'' \<in> set netloc \<and> CHR ''['' \<notin> set netloc))"

definition hostinfo :: "string \<Rightarrow> string \<times> string option" where
  "hostinfo netloc =
     (case str_rpartition (CHR ''@'') netloc of (_, _, hi) \<Rightarrow>
        (case str_partition (CHR ''['') hi of (_, have_open_br, bracketed) \<Rightarrow>
           (case (if have_open_br
                  then (case str_partition (CHR '']'') bracketed of (hn, _, pt) \<Rightarrow>
                          (hn, snd (snd (str_partition (CHR '':'') pt))))
                  else (case str_partition (CHR '':'') hi of (hn, _, pt) \<Rightarrow> (hn, pt)))
            of (hn, pt) \<Rightarrow> (hn, if pt = [] then None else Some pt))))"

definition hostname_of :: "string \<Rightarrow> string option" where
  "hostname_of netloc =
     (case fst (hostinfo netloc) of
        [] \<Rightarrow> None
      | hn \<Rightarrow> (case str_partition (CHR ''%'') hn of (h, percent, zone) \<Rightarrow>
                 Some (lower h @ (if percent then ''%'' else []) @ zone)))"

definition port_of :: "string \<Rightarrow> error + int option" where
  "port_of netloc =
     (case snd (hostinfo netloc) of
        None \<Rightarrow> Inr None
      | Some pt \<Rightarrow>
          if list_all isdigit_ascii pt
          then (let n = int_of_digits pt in if 0 \<le> n \<and> n \<le> 65535 then Inr (Some n) else Inl ValueError)
          else Inl ValueError)"

definition urlparse :: "string \<Rightarrow> error + parse_result" where
  "urlparse url =
     (case split_scheme (strip_unsafe url) of (sch, rest) \<Rightarrow>
        if unbalanced_brackets (split_netloc rest) then Inl ValueError
        else
          (case port_of (split_netloc rest) of
             Inl e \<Rightarrow> Inl e
           | Inr pt \<Rightarrow>
               Inr \<lparr>parsed_scheme = sch,
                    parsed_hostname = hostname_of (split_netloc rest),
                    parsed_port = pt\<rparr>))"

text \<open>The resolved gateway target of a URL: the triple of the three derived constants.\<close>

definition gateway_target :: "string \<Rightarrow> error + (string \<times> string \<times> int)" where
  "gateway_target url =
     (case urlparse url of
        Inl e \<Rightarrow> Inl e
      | Inr p \<Rightarrow> Inr (GATEWAY_SCHEME p, GATEWAY_HOST p, GATEWAY_PORT p))"

section \<open>Header collections\<close>

text \<open>
  Modelled from the spec: the header collection of the host proxy engine (the class
  behind \<open>flow.request.headers\<close>), which is not part of this repository. The spec
  describes it as a dynamic, case-insensitive string map, an ordered map abstraction
  with case-insensitive key comparison. Here it is an ordered list of name/value fields,
  so that a name may occur more than once, as in an HTTP message. Names are compared
  after lower-casing. Reading a name yields all its values joined by a comma and a
  space. Assigning a name replaces its first field in place, drops its other fields,
  and appends a field when there was none. Deleting a name removes all its fields. The
  addon guards its deletions (the first by the equality test on the value read, the
  second by a membership test), so deleting an absent name is kept as the fault
  \<open>KeyError\<close> of a Python mapping rather than taken as a no-op.
\<close>

type_synonym headers = "(string \<times> string) list"

definition get_all :: "headers \<Rightarrow> string \<Rightarrow> string list" where
  "get_all hs key = map snd (filter (\<lambda>f. lower (fst f) = lower key) hs)"

fun join_values :: "string list \<Rightarrow> string" where
  "join_values [] = []"
| "join_values [v] = v"
| "join_values (v # w # vs) = v @ '', '' @ join_values (w # vs)"

definition headers_get :: "headers \<Rightarrow> string \<Rightarrow> string option" where
  "headers_get hs key =
     (case get_all hs key of [] \<Rightarrow> None | v # vs \<Rightarrow> Some (join_values (v # vs)))"

definition headers_get_default :: "headers \<Rightarrow> string \<Rightarrow> string \<Rightarrow> string" where
  "headers_get_default hs key d = (case headers_get hs key of None \<Rightarrow> d | Some v \<Rightarrow> v)"

definition headers_contains :: "headers \<Rightarrow> string \<Rightarrow> bool" where
  "headers_contains hs key = (get_all hs key \<noteq> [])"

fun set_all :: "string \<Rightarrow> string list \<Rightarrow> headers \<Rightarrow> headers" where
  "set_all key vs [] = map (Pair key) vs"
| "set_all key vs (f # fs) =
     (if lower (fst f) = lower key
      then (case vs of [] \<Rightarrow> set_all key [] fs | x # xs \<Rightarrow> (fst f, x) # set_all key xs fs)
      else f # set_all key vs fs)"

definition headers_setitem :: "headers \<Rightarrow> string \<Rightarrow> string \<Rightarrow> headers" where
  "headers_setitem hs key v = set_all key [v] hs"

definition headers_delitem :: "headers \<Rightarrow> string \<Rightarrow> error + headers" where
  "headers_delitem hs key =
     (if \<not> headers_contains hs key then Inl KeyError
      else Inr (filter (\<lambda>f. lower key \<noteq> lower (fst f)) hs))"

section \<open>Flows\<close>

text \<open>
  A flow is the request/response pair the proxy engine hands to both hooks. The request
  path carries the query string, as in the engine (\<open>/search?q=1\<close>). The authority is
  the destination named in the request line or in the \<open>:authority\<close> pseudo-header, empty
  when the request names none. The response is absent until the engine has read it.
\<close>

record http_request =
  scheme :: string
  host :: string
  port :: int
  path :: string
  http_method :: string
  content :: string
  authority :: string
  headers :: headers

record http_response =
  status_code :: int

record http_flow =
  request :: http_request
  response :: "http_response option"

text \<open>
  Assigning \<open>flow.request.scheme\<close> stores the value. The setters of \<open>host\<close> and
  \<open>port\<close> belong to the host proxy engine, not to this repository: each stores the
  value and then brings the request's own naming of its destination in line with it.
  The new name is the host, followed by a colon and the decimal port unless the port is
  the default of the scheme (80 for \<open>http\<close>, 443 for \<open>https\<close>); it replaces the
  \<open>Host\<close> header if the request has one, and the authority if that is not empty.
\<close>

fun decimal :: "nat \<Rightarrow> string" where
  "decimal n = (if n < 10 then [char_of (48 + n)] else decimal (n div 10) @ [char_of (48 + n mod 10)])"

declare decimal.simps [simp del]

definition str_int :: "int \<Rightarrow> string" where
  "str_int i = (if i < 0 then ''-'' @ decimal (nat (- i)) else decimal (nat i))"

definition default_port :: "string \<Rightarrow> int option" where
  "default_port s = (if s = ''http'' then Some 80 else if s = ''https'' then Some 443 else None)"

definition hostport :: "string \<Rightarrow> string \<Rightarrow> int \<Rightarrow> string" where
  "hostport s h p = (if default_port s = Some p then h else h @ '':'' @ str_int p)"

definition update_host_and_authority :: "http_request \<Rightarrow> http_request" where
  "update_host_and_authority r =
     (let val = hostport (scheme r) (host r) (port r);
          r1 = (if headers_contains (headers r) ''Host''
                then r\<lparr>headers := headers_setitem (headers r) ''Host'' val\<rparr> else r)
      in if authority r1 \<noteq> [] then r1\<lparr>authority := val\<rparr> else r1)"

definition set_scheme :: "http_request \<Rightarrow> string \<Rightarrow> http_request" where
  "set_scheme r v = r\<lparr>scheme := v\<rparr>"

definition set_host :: "http_request \<Rightarrow> string \<Rightarrow> http_request" where
  "set_host r v = update_host_and_authority (r\<lparr>host := v\<rparr>)"

definition set_port :: "http_request \<Rightarrow> int \<Rightarrow> http_request" where
  "set_port r v = update_host_and_authority (r\<lparr>port := v\<rparr>)"

text \<open>
  The log lines are kept as records of the values interpolated into the two messages:
  the interception line has the original URL, the gateway scheme, host and port and the
  path; the response line has the original host, the path and the status code.
\<close>

datatype log_record =
  LogIntercepted string string string int string
| LogResponse string string int

section \<open>The addon\<close>

definition rule_matches :: "string \<Rightarrow> string \<Rightarrow> bool" where
  "rule_matches h d = (h = d \<or> endswith h (''.'' @ d))"

definition domain_match :: "config \<Rightarrow> string \<Rightarrow> bool" where
  "domain_match cfg h = list_ex (rule_matches h) (INTERCEPT_DOMAINS cfg)"

definition should_intercept :: "config \<Rightarrow> string \<Rightarrow> string \<Rightarrow> bool" where
  "should_intercept cfg h p =
     (if INTERCEPT_DOMAINS cfg = [] then False
      else if \<not> domain_match cfg h then False
      else if INTERCEPT_PATH_PREFIX cfg \<noteq> [] \<and> \<not> startswith p (INTERCEPT_PATH_PREFIX cfg)
      then False
      else True)"

text \<open>
  \<open>pretty_host\<close> and \<open>pretty_url\<close> are properties the proxy engine computes from the
  request; the hook takes them as parameters and reads both before it changes the
  request.
\<close>

definition GatewayInterceptor_request ::
  "config \<Rightarrow> (http_request \<Rightarrow> string) \<Rightarrow> (http_request \<Rightarrow> string) \<Rightarrow> http_flow
     \<Rightarrow> http_flow \<times> log_record list" where
  "GatewayInterceptor_request cfg pretty_host pretty_url flow =
     (let h = pretty_host (request flow);
          p = path (request flow)
      in if \<not> should_intercept cfg h p then (flow, [])
         else
           (let original_host = h;
                original_url = pretty_url (request flow);
                r1 = set_scheme (request flow) (GATEWAY_SCHEME (parsed cfg));
                r2 = set_host r1 (GATEWAY_HOST (parsed cfg));
                r3 = set_port r2 (GATEWAY_PORT (parsed cfg));
                r4 = r3\<lparr>headers :=
                       headers_setitem (headers r3) ''Authorization''
                         (''Bearer '' @ GATEWAY_TOKEN cfg)\<rparr>;
                r5 = r4\<lparr>headers := headers_setitem (headers r4) ''X-Original-Host'' original_host\<rparr>;
                r6 = r5\<lparr>headers :=
                       headers_setitem (headers r5) ''X-Intercepted-By'' ''cyber-drill-gateway''\<rparr>
            in (flow\<lparr>request := r6\<rparr>,
                [LogIntercepted original_url (GATEWAY_SCHEME (parsed cfg))
                   (GATEWAY_HOST (parsed cfg)) (GATEWAY_PORT (parsed cfg)) p])))"

definition GatewayInterceptor_response :: "http_flow \<Rightarrow> error + (http_flow \<times> log_record list)" where
  "GatewayInterceptor_response flow =
     (if headers_get (headers (request flow)) ''X-Intercepted-By'' = Some ''cyber-drill-gateway''
      then
        (let original_host = headers_get_default (headers (request flow)) ''X-Original-Host'' ''unknown''
         in case response flow of
              None \<Rightarrow> Inl AttributeError
            | Some resp \<Rightarrow>
                (let lg = [LogResponse original_host (path (request flow)) (status_code resp)]
                 in case headers_delitem (headers (request flow)) ''X-Intercepted-By'' of
                      Inl e \<Rightarrow> Inl e
                    | Inr hs1 \<Rightarrow>
                        if headers_contains hs1 ''X-Original-Host''
                        then (case headers_delitem hs1 ''X-Original-Host'' of
                                Inl e \<Rightarrow> Inl e
                              | Inr hs2 \<Rightarrow>
                                  Inr (flow\<lparr>request := (request flow)\<lparr>headers := hs2\<rparr>\<rparr>, lg))
                        else Inr (flow\<lparr>request := (request flow)\<lparr>headers := hs1\<rparr>\<rparr>, lg)))
      else Inr (flow, []))"

text \<open>
  The configuration the module has when no environment variable is set: the gateway URL
  \<open>http://127.0.0.1:18790\<close> (given here by its parse result), the token
  \<open>sk-deploy-001\<close>, the three default domains and no path prefix.
\<close>

definition default_config :: config where
  "default_config =
     \<lparr>parsed = \<lparr>parsed_scheme = ''http'', parsed_hostname = Some ''127.0.0.1'',
                 parsed_port = Some 18790\<rparr>,
      GATEWAY_TOKEN = ''sk-deploy-001'',
      INTERCEPT_DOMAINS = [''api.codeium.com'', ''server.codeium.com'', ''web-backend.codeium.com''],
      INTERCEPT_PATH_PREFIX = []\<rparr>"

text \<open>A header collection is free of the two reserved names.\<close>

definition no_marker_headers :: "headers \<Rightarrow> bool" where
  "no_marker_headers hs =
     (\<not> headers_contains hs ''X-Intercepted-By'' \<and> \<not> headers_contains hs ''X-Original-Host'')"

text \<open>A sample request and flow, and a URL rendering, for concrete instances.\<close>

definition sample_request :: "string \<Rightarrow> headers \<Rightarrow> http_request" where
  "sample_request h hs =
     \<lparr>scheme = ''https'', host = h, port = 443, path = ''/v1/chat/completions?stream=1'',
      http_method = ''POST'', content = ''{}'', authority = [], headers = hs\<rparr>"

definition sample_flow :: "string \<Rightarrow> headers \<Rightarrow> http_response option \<Rightarrow> http_flow" where
  "sample_flow h hs resp = \<lparr>request = sample_request h hs, response = resp\<rparr>"

definition sample_url :: "http_request \<Rightarrow> string" where
  "sample_url r = scheme r @ ''://'' @ host r @ path r"

definition marked_headers :: headers where
  "marked_headers =
     [(''Accept'', ''*/*''), (''X-Original-Host'', ''api.codeium.com''),
      (''X-Intercepted-By'', ''cyber-drill-gateway'')]"

section \<open>Facts about strings and header collections\<close>

lemma endswith_suffix: "endswith s x \<longleftrightarrow> suffix x s"
  unfolding endswith_def suffix_def
  by (metis append_take_drop_id append_eq_conv_conj diff_add_inverse2 length_append le_add2 length_drop)

lemma startswith_prefix: "startswith s p \<longleftrightarrow> prefix p s"
  unfolding startswith_def prefix_def
  by (metis append_eq_conv_conj append_take_drop_id)

lemma lower_keys:
  "lower ''Authorization'' = ''authorization''"
  "lower ''X-Original-Host'' = ''x-original-host''"
  "lower ''X-Intercepted-By'' = ''x-intercepted-by''"
  by code_simp+

lemma get_all_set_all: "get_all (set_all key vs hs) key = vs"
  by (induction hs arbitrary: vs) (auto simp: get_all_def comp_def split: list.splits)

lemma get_all_set_all_other:
  "lower k \<noteq> lower key \<Longrightarrow> get_all (set_all key vs hs) k = get_all hs k"
  by (induction hs arbitrary: vs) (auto simp: get_all_def comp_def split: list.splits)

lemma filter_set_all:
  "(\<And>n v. P (n, v) \<Longrightarrow> lower n \<noteq> lower key) \<Longrightarrow> filter P (set_all key vs hs) = filter P hs"
proof (induction hs arbitrary: vs)
  case Nil
  then show ?case by (induction vs) auto
next
  case (Cons f fs)
  obtain n v where f: "f = (n, v)" by (cases f)
  show ?case using Cons f by (auto split: list.splits)
qed

lemma get_all_delete:
  "get_all (filter (\<lambda>f. lower key \<noteq> lower (fst f)) hs) k =
     (if lower k = lower key then [] else get_all hs k)"
  by (induction hs) (auto simp: get_all_def)

lemma headers_contains_setitem:
  "headers_contains (headers_setitem hs key v) k =
     (if lower k = lower key then True else headers_contains hs k)"
  by (simp add: headers_contains_def headers_setitem_def get_all_set_all_other)
     (metis get_all_def get_all_set_all list.distinct(1))

lemma headers_get_setitem_same: "headers_get (headers_setitem hs key v) key = Some v"
  by (simp add: headers_get_def headers_setitem_def get_all_set_all)

lemma should_intercept_iff:
  "should_intercept cfg h p \<longleftrightarrow>
     domain_match cfg h \<and> (INTERCEPT_PATH_PREFIX cfg = [] \<or> prefix (INTERCEPT_PATH_PREFIX cfg) p)"
  by (auto simp: should_intercept_def domain_match_def startswith_prefix)

lemma lower_api: "lower ''API.codeium.com'' = lower ''api.codeium.com''"
  by code_simp

section \<open>Facts about the two hooks\<close>

lemma request_passthrough:
  "\<not> should_intercept cfg (ph (request f)) (path (request f)) \<Longrightarrow>
     GatewayInterceptor_request cfg ph pu f = (f, [])"
  by (simp add: GatewayInterceptor_request_def)

lemma request_intercepted:
  "should_intercept cfg (ph (request f)) (path (request f)) \<Longrightarrow>
     GatewayInterceptor_request cfg ph pu f =
       (f\<lparr>request :=
            (set_port
               (set_host (set_scheme (request f) (GATEWAY_SCHEME (parsed cfg)))
                  (GATEWAY_HOST (parsed cfg)))
               (GATEWAY_PORT (parsed cfg)))
            \<lparr>headers :=
               headers_setitem
                 (headers_setitem
                    (headers_setitem
                       (headers
                          (set_port
                             (set_host (set_scheme (request f) (GATEWAY_SCHEME (parsed cfg)))
                                (GATEWAY_HOST (parsed cfg)))
                             (GATEWAY_PORT (parsed cfg))))
                       ''Authorization'' (''Bearer '' @ GATEWAY_TOKEN cfg))
                    ''X-Original-Host'' (ph (request f)))
                 ''X-Intercepted-By'' ''cyber-drill-gateway''\<rparr>\<rparr>,
        [LogIntercepted (pu (request f)) (GATEWAY_SCHEME (parsed cfg)) (GATEWAY_HOST (parsed cfg))
           (GATEWAY_PORT (parsed cfg)) (path (request f))])"
  by (simp add: GatewayInterceptor_request_def Let_def)

lemma delete_absent:
  "\<not> headers_contains hs k \<Longrightarrow> filter (\<lambda>f. lower k \<noteq> lower (fst f)) hs = hs"
  by (induction hs) (auto simp: headers_contains_def get_all_def split: if_splits)

lemma headers_get_contains: "headers_get hs k = Some v \<Longrightarrow> headers_contains hs k"
  by (auto simp: headers_get_def headers_contains_def split: list.splits)

lemma headers_contains_delete:
  "headers_contains (filter (\<lambda>f. lower key \<noteq> lower (fst f)) hs) k =
     (lower k \<noteq> lower key \<and> headers_contains hs k)"
  by (simp add: headers_contains_def get_all_delete)

lemma response_unmarked:
  "headers_get (headers (request f)) ''X-Intercepted-By'' \<noteq> Some ''cyber-drill-gateway'' \<Longrightarrow>
     GatewayInterceptor_response f = Inr (f, [])"
  by (simp add: GatewayInterceptor_response_def)

lemma response_marked:
  assumes m: "headers_get (headers (request f)) ''X-Intercepted-By'' = Some ''cyber-drill-gateway''"
    and r: "response f = Some r"
  shows "GatewayInterceptor_response f =
     Inr (f\<lparr>request := (request f)
              \<lparr>headers :=
                 filter (\<lambda>fld. lower ''X-Original-Host'' \<noteq> lower (fst fld))
                   (filter (\<lambda>fld. lower ''X-Intercepted-By'' \<noteq> lower (fst fld))
                      (headers (request f)))\<rparr>\<rparr>,
          [LogResponse (headers_get_default (headers (request f)) ''X-Original-Host'' ''unknown'')
             (path (request f)) (status_code r)])"
proof -
  let ?hs = "headers (request f)"
  let ?hs1 = "filter (\<lambda>fld. lower ''X-Intercepted-By'' \<noteq> lower (fst fld)) ?hs"
  have c: "headers_contains ?hs ''X-Intercepted-By''"
    using m by (rule headers_get_contains)
  have d1: "headers_delitem ?hs ''X-Intercepted-By'' = Inr ?hs1"
    using c by (simp add: headers_delitem_def)
  show ?thesis
  proof (cases "headers_contains ?hs1 ''X-Original-Host''")
    case True
    then have "headers_delitem ?hs1 ''X-Original-Host'' =
        Inr (filter (\<lambda>fld. lower ''X-Original-Host'' \<noteq> lower (fst fld)) ?hs1)"
      by (simp add: headers_delitem_def)
    with True m r d1 show ?thesis
      by (simp add: GatewayInterceptor_response_def Let_def)
  next
    case False
    then have "filter (\<lambda>fld. lower ''X-Original-Host'' \<noteq> lower (fst fld)) ?hs1 = ?hs1"
      by (rule delete_absent)
    with False m r d1 show ?thesis
      by (simp add: GatewayInterceptor_response_def Let_def)
  qed
qed

lemma no_marker_after_delete:
  "no_marker_headers
     (filter (\<lambda>fld. lower ''X-Original-Host'' \<noteq> lower (fst fld))
        (filter (\<lambda>fld. lower ''X-Intercepted-By'' \<noteq> lower (fst fld)) hs))"
  by (simp add: no_marker_headers_def headers_contains_delete del: filter_filter)

lemma marker_after_rewrite:
  "headers_get
     (headers_setitem
        (headers_setitem (headers_setitem hs ''Authorization'' a) ''X-Original-Host'' oh)
        ''X-Intercepted-By'' ''cyber-drill-gateway'')
     ''X-Intercepted-By'' = Some ''cyber-drill-gateway''"
  by (rule headers_get_setitem_same)


lemma response_strips:
  assumes "headers_get (headers (request f)) ''X-Intercepted-By'' = Some ''cyber-drill-gateway''
           \<or> no_marker_headers (headers (request f))"
    and "response f = Some r"
  shows "\<exists>f2 lg2. GatewayInterceptor_response f = Inr (f2, lg2)
           \<and> no_marker_headers (headers (request f2))"
proof (cases "headers_get (headers (request f)) ''X-Intercepted-By'' = Some ''cyber-drill-gateway''")
  case True
  from response_marked [OF True assms(2)] show ?thesis
    by (simp add: no_marker_after_delete del: filter_filter)
next
  case False
  with assms(1) have "no_marker_headers (headers (request f))" by simp
  with response_unmarked [OF False] show ?thesis by simp
qed

lemma request_marks_or_keeps:
  assumes "should_intercept cfg (ph (request f)) (path (request f))
           \<or> no_marker_headers (headers (request f))"
  shows "headers_get (headers (request (fst (GatewayInterceptor_request cfg ph pu f))))
           ''X-Intercepted-By'' = Some ''cyber-drill-gateway''
         \<or> no_marker_headers (headers (request (fst (GatewayInterceptor_request cfg ph pu f))))"
proof (cases "should_intercept cfg (ph (request f)) (path (request f))")
  case True
  then show ?thesis by (simp add: request_intercepted marker_after_rewrite)
next
  case False
  with assms show ?thesis by (simp add: request_passthrough)
qed

lemma filter_setitem_others:
  "(\<And>n v. P (n, v) \<Longrightarrow> lower n \<noteq> lower key) \<Longrightarrow>
     filter P (headers_setitem hs key x) = filter P hs"
  unfolding headers_setitem_def by (rule filter_set_all)

lemma lower_host: "lower ''Host'' = ''host''"
  by code_simp

lemma hostport_nonempty: "h \<noteq> [] \<Longrightarrow> hostport s h p \<noteq> []"
  by (simp add: hostport_def)

lemma GATEWAY_HOST_nonempty: "GATEWAY_HOST p \<noteq> []"
  by (simp add: GATEWAY_HOST_def split: option.splits)

lemma update_host_and_authority_eq:
  "update_host_and_authority r =
     r\<lparr>authority :=
         (if authority r \<noteq> [] then hostport (scheme r) (host r) (port r) else []),
       headers :=
         (if headers_contains (headers r) ''Host''
          then headers_setitem (headers r) ''Host'' (hostport (scheme r) (host r) (port r))
          else headers r)\<rparr>"
  by (simp add: update_host_and_authority_def Let_def)

lemma destination_rewritten:
  assumes "h \<noteq> []"
  shows "set_port (set_host (set_scheme r s) h) p =
     r\<lparr>scheme := s, host := h, port := p,
       authority := (if authority r = [] then [] else hostport s h p),
       headers :=
         (if headers_contains (headers r) ''Host''
          then headers_setitem
                 (headers_setitem (headers r) ''Host'' (hostport s h (port r)))
                 ''Host'' (hostport s h p)
          else headers r)\<rparr>"
  using hostport_nonempty [OF assms]
  by (simp add: set_port_def set_host_def set_scheme_def update_host_and_authority_eq
      headers_contains_setitem)

lemma host_header_rewritten:
  "get_all
     (if headers_contains hs ''Host''
      then headers_setitem (headers_setitem hs ''Host'' v1) ''Host'' v2 else hs) ''Host''
   = (if headers_contains hs ''Host'' then [v2] else [])"
  by (simp add: headers_setitem_def get_all_set_all headers_contains_def)

lemma other_headers_kept:
  assumes "\<And>n v. P (n, v) \<Longrightarrow> lower n \<noteq> lower ''Host''"
  shows "filter P
     (if headers_contains hs ''Host''
      then headers_setitem (headers_setitem hs ''Host'' v1) ''Host'' v2 else hs)
   = filter P hs"
  using assms by (simp add: filter_setitem_others)

lemma get_all_setitem_other:
  "lower k \<noteq> lower key \<Longrightarrow> get_all (headers_setitem hs key v) k = get_all hs k"
  unfolding headers_setitem_def by (rule get_all_set_all_other)

lemma get_all_setitem_same: "get_all (headers_setitem hs key v) key = [v]"
  unfolding headers_setitem_def by (rule get_all_set_all)

lemma lower_accept: "lower ''Accept'' = ''accept''"
  by code_simp

lemma digit_chars:
  "char_of (48 :: nat) = CHR ''0''" "char_of (49 :: nat) = CHR ''1''"
  "char_of (50 :: nat) = CHR ''2''" "char_of (51 :: nat) = CHR ''3''"
  "char_of (52 :: nat) = CHR ''4''" "char_of (53 :: nat) = CHR ''5''"
  "char_of (54 :: nat) = CHR ''6''" "char_of (55 :: nat) = CHR ''7''"
  "char_of (56 :: nat) = CHR ''8''" "char_of (57 :: nat) = CHR ''9''"
  by code_simp+

lemma str_int_18790: "str_int 18790 = ''18790''"
  by (simp add: str_int_def decimal.simps [of 18790] decimal.simps [of 1879]
      decimal.simps [of 187] decimal.simps [of 18] decimal.simps [of 1]
      decimal.simps [of "Suc 0"] digit_chars)

lemma host_header_after_rewrite:
  assumes "should_intercept cfg (ph (request f)) (path (request f))"
  shows "get_all (headers (request (fst (GatewayInterceptor_request cfg ph pu f)))) ''Host''
     = (if headers_contains (headers (request f)) ''Host''
        then [hostport (GATEWAY_SCHEME (parsed cfg)) (GATEWAY_HOST (parsed cfg))
                (GATEWAY_PORT (parsed cfg))]
        else [])"
  unfolding request_intercepted [of cfg ph f pu, OF assms]
    destination_rewritten [OF GATEWAY_HOST_nonempty]
  by (simp add: get_all_setitem_other get_all_setitem_same lower_keys lower_host
      headers_contains_def)

lemma sample_host_rewritten:
  "get_all
     (headers (request (fst (GatewayInterceptor_request default_config host sample_url
        (sample_flow ''api.codeium.com''
           [(''Host'', ''api.codeium.com''), (''Accept'', ''*/*'')] None)))))
     ''Host'' = [''127.0.0.1:18790'']"
proof -
  let ?f = "sample_flow ''api.codeium.com''
              [(''Host'', ''api.codeium.com''), (''Accept'', ''*/*'')] None"
  have m: "should_intercept default_config (host (request ?f)) (path (request ?f))"
    by (simp add: should_intercept_def domain_match_def rule_matches_def default_config_def
        sample_flow_def sample_request_def)
  have c: "headers_contains (headers (request ?f)) ''Host''"
    by (simp add: sample_flow_def sample_request_def headers_contains_def get_all_def lower_host)
  have v: "hostport (GATEWAY_SCHEME (parsed default_config)) (GATEWAY_HOST (parsed default_config))
             (GATEWAY_PORT (parsed default_config)) = ''127.0.0.1:18790''"
    by (simp add: default_config_def GATEWAY_SCHEME_def GATEWAY_HOST_def GATEWAY_PORT_def
        hostport_def default_port_def str_int_18790)
  from host_header_after_rewrite [of default_config host ?f sample_url, OF m] c v
  show ?thesis by simp
qed


lemma lower_lit: "lower ''x-intercepted-by'' = ''x-intercepted-by''"
  by code_simp

lemma urlparse_no_host:
  "urlparse ''https://'' = Inr \<lparr>parsed_scheme = ''https'', parsed_hostname = None, parsed_port = None\<rparr>"
  by code_simp

lemma urlparse_http_no_host:
  "urlparse ''http://''
     = Inr \<lparr>parsed_scheme = ''http'', parsed_hostname = None, parsed_port = None\<rparr>"
  by code_simp

lemma marked_headers_get:
  "headers_get marked_headers ''X-Intercepted-By'' = Some ''cyber-drill-gateway''"
  by code_simp

lemma response_sample_marked:
  "GatewayInterceptor_response
     (sample_flow ''127.0.0.1''
        marked_headers
        (Some \<lparr>status_code = 200\<rparr>))
   = Inr (sample_flow ''127.0.0.1'' [(''Accept'', ''*/*'')] (Some \<lparr>status_code = 200\<rparr>),
          [LogResponse ''api.codeium.com'' ''/v1/chat/completions?stream=1'' 200])"
  by code_simp

section \<open>The matcher\<close>

text \<open>
  C2. The domain component of \<open>should_intercept\<close> is true exactly when some rule domain
  \<open>d\<close> equals the host or the host ends with a dot followed by \<open>d\<close>; a true result of
  \<open>should_intercept\<close> implies such a rule; and the host \<open>evild.com\<close> does not match the
  rule \<open>d.com\<close>.
\<close>

theorem domain_match_iff:
  "(domain_match cfg h \<longleftrightarrow>
      (\<exists>d \<in> set (INTERCEPT_DOMAINS cfg). h = d \<or> suffix (''.'' @ d) h))
   \<and> (should_intercept cfg h p \<longrightarrow>
        (\<exists>d \<in> set (INTERCEPT_DOMAINS cfg). h = d \<or> suffix (''.'' @ d) h))
   \<and> \<not> domain_match (cfg\<lparr>INTERCEPT_DOMAINS := [''d.com'']\<rparr>) ''evild.com''
   \<and> \<not> should_intercept (cfg\<lparr>INTERCEPT_DOMAINS := [''d.com'']\<rparr>) ''evild.com'' p"
proof -
  have dm: "domain_match c x \<longleftrightarrow> (\<exists>d \<in> set (INTERCEPT_DOMAINS c). x = d \<or> suffix (''.'' @ d) x)"
    for c x
    by (simp add: domain_match_def list_ex_iff rule_matches_def endswith_suffix)
  have ev: "\<not> domain_match (cfg\<lparr>INTERCEPT_DOMAINS := [''d.com'']\<rparr>) ''evild.com''"
    by (simp add: domain_match_def rule_matches_def endswith_def)
  show ?thesis
    using dm [of cfg h] ev by (auto simp: should_intercept_iff)
qed

theorem domain_match_iff_witness:
  "domain_match default_config ''x.api.codeium.com''
   \<and> (\<exists>d \<in> set (INTERCEPT_DOMAINS default_config).
         ''x.api.codeium.com'' = d \<or> suffix (''.'' @ d) ''x.api.codeium.com'')
   \<and> should_intercept default_config ''x.api.codeium.com'' ''/v1/chat/completions''"
  using domain_match_iff [of default_config "''x.api.codeium.com''" "''/v1/chat/completions''"]
  by (simp add: default_config_def should_intercept_def domain_match_def rule_matches_def endswith_def)

text \<open>
  C3. With an empty list of domains \<open>should_intercept\<close> returns false for every host
  and path.
\<close>

theorem empty_domains_never_intercept:
  "INTERCEPT_DOMAINS cfg = [] \<Longrightarrow> should_intercept cfg h p = False"
  by (simp add: should_intercept_def)

theorem empty_domains_never_intercept_witness:
  "INTERCEPT_DOMAINS (default_config\<lparr>INTERCEPT_DOMAINS := []\<rparr>) = []
   \<and> should_intercept (default_config\<lparr>INTERCEPT_DOMAINS := []\<rparr>) ''api.codeium.com'' ''/v1'' = False"
  using empty_domains_never_intercept
          [of "default_config\<lparr>INTERCEPT_DOMAINS := []\<rparr>" "''api.codeium.com''" "''/v1''"]
  by simp

text \<open>
  C4. The result of \<open>should_intercept\<close> is the conjunction of the domain match and the
  path match. For a host whose domain component matches: with a non-empty prefix the
  result is true exactly when the path starts with the prefix, character by character;
  with an empty prefix every path matches.
\<close>

theorem path_prefix_match:
  "(should_intercept cfg h p \<longleftrightarrow>
      domain_match cfg h \<and> (INTERCEPT_PATH_PREFIX cfg = [] \<or> prefix (INTERCEPT_PATH_PREFIX cfg) p))
   \<and> (domain_match cfg h \<and> INTERCEPT_PATH_PREFIX cfg \<noteq> [] \<longrightarrow>
        (should_intercept cfg h p \<longleftrightarrow> prefix (INTERCEPT_PATH_PREFIX cfg) p))
   \<and> (domain_match cfg h \<and> INTERCEPT_PATH_PREFIX cfg = [] \<longrightarrow> should_intercept cfg h p)"
  by (auto simp: should_intercept_iff)

theorem path_prefix_match_witness:
  "domain_match (default_config\<lparr>INTERCEPT_PATH_PREFIX := ''/v1/chat''\<rparr>) ''api.codeium.com''
   \<and> INTERCEPT_PATH_PREFIX (default_config\<lparr>INTERCEPT_PATH_PREFIX := ''/v1/chat''\<rparr>) \<noteq> []
   \<and> should_intercept (default_config\<lparr>INTERCEPT_PATH_PREFIX := ''/v1/chat''\<rparr>)
        ''api.codeium.com'' ''/v1/chat/completions''
   \<and> \<not> should_intercept (default_config\<lparr>INTERCEPT_PATH_PREFIX := ''/v1/chat''\<rparr>)
        ''api.codeium.com'' ''/V1/chat/completions''
   \<and> domain_match default_config ''api.codeium.com''
   \<and> INTERCEPT_PATH_PREFIX default_config = []
   \<and> should_intercept default_config ''api.codeium.com'' ''/anything''"
  using path_prefix_match [of "default_config\<lparr>INTERCEPT_PATH_PREFIX := ''/v1/chat''\<rparr>"
          "''api.codeium.com''" "''/v1/chat/completions''"]
        path_prefix_match [of "default_config\<lparr>INTERCEPT_PATH_PREFIX := ''/v1/chat''\<rparr>"
          "''api.codeium.com''" "''/V1/chat/completions''"]
        path_prefix_match [of default_config "''api.codeium.com''" "''/anything''"]
  by (simp add: default_config_def domain_match_def rule_matches_def)

text \<open>
  C10. Host matching compares characters exactly. A host \<open>h\<close> that differs from a rule
  domain \<open>d\<close> only in letter case matches \<open>d\<close> neither as it is nor behind a subdomain
  label, and is not intercepted when \<open>d\<close> is the only rule.
\<close>

theorem host_match_case_sensitive:
  "h \<noteq> d \<and> lower h = lower d \<longrightarrow>
     \<not> rule_matches h d
     \<and> \<not> rule_matches (pre @ ''.'' @ h) d
     \<and> \<not> should_intercept (cfg\<lparr>INTERCEPT_DOMAINS := [d]\<rparr>) h p
     \<and> \<not> should_intercept (cfg\<lparr>INTERCEPT_DOMAINS := [d]\<rparr>) (pre @ ''.'' @ h) p"
proof (intro impI, elim conjE)
  assume ne: "h \<noteq> d" and lo: "lower h = lower d"
  from lo have len: "length h = length d"
    unfolding lower_def by (rule map_eq_imp_length_eq)
  have a: "\<not> rule_matches h d"
    using ne len by (simp add: rule_matches_def endswith_def)
  have b: "\<not> rule_matches (pre @ ''.'' @ h) d"
    using ne len by (auto simp: rule_matches_def endswith_def)
  show "\<not> rule_matches h d
     \<and> \<not> rule_matches (pre @ ''.'' @ h) d
     \<and> \<not> should_intercept (cfg\<lparr>INTERCEPT_DOMAINS := [d]\<rparr>) h p
     \<and> \<not> should_intercept (cfg\<lparr>INTERCEPT_DOMAINS := [d]\<rparr>) (pre @ ''.'' @ h) p"
    using a b by (simp add: should_intercept_def domain_match_def)
qed

theorem host_match_case_sensitive_witness:
  "''API.codeium.com'' \<noteq> ''api.codeium.com''
   \<and> lower ''API.codeium.com'' = lower ''api.codeium.com''
   \<and> \<not> rule_matches ''API.codeium.com'' ''api.codeium.com''
   \<and> \<not> rule_matches (''x'' @ ''.'' @ ''API.codeium.com'') ''api.codeium.com''
   \<and> \<not> should_intercept (default_config\<lparr>INTERCEPT_DOMAINS := [''api.codeium.com'']\<rparr>)
          ''API.codeium.com'' ''/v1''"
  using host_match_case_sensitive
          [of "''API.codeium.com''" "''api.codeium.com''" "''x''" default_config "''/v1''"]
        lower_api
  by simp

section \<open>The correlator\<close>

text \<open>
  C1, as the claim states it, fails: a request that is not intercepted and that arrives
  with the two reserved header names already set passes the request phase unchanged and
  leaves the response phase with both headers still present.
\<close>

theorem markers_survive_counterexample:
  "GatewayInterceptor_request default_config host sample_url
     (sample_flow ''example.com''
        [(''X-Intercepted-By'', ''another-proxy''), (''X-Original-Host'', ''a.example'')] None)
   = (sample_flow ''example.com''
        [(''X-Intercepted-By'', ''another-proxy''), (''X-Original-Host'', ''a.example'')] None, [])
   \<and> GatewayInterceptor_response
       (sample_flow ''example.com''
          [(''X-Intercepted-By'', ''another-proxy''), (''X-Original-Host'', ''a.example'')]
          (Some \<lparr>status_code = 200\<rparr>))
     = Inr (sample_flow ''example.com''
          [(''X-Intercepted-By'', ''another-proxy''), (''X-Original-Host'', ''a.example'')]
          (Some \<lparr>status_code = 200\<rparr>), [])
   \<and> headers_contains
        [(''X-Intercepted-By'', ''another-proxy''), (''X-Original-Host'', ''a.example'')]
        ''X-Intercepted-By''
   \<and> headers_contains
        [(''X-Intercepted-By'', ''another-proxy''), (''X-Original-Host'', ''a.example'')]
        ''X-Original-Host''"
  by (simp add: GatewayInterceptor_request_def GatewayInterceptor_response_def
      should_intercept_def domain_match_def rule_matches_def endswith_def default_config_def
      sample_flow_def sample_request_def headers_get_def headers_contains_def get_all_def
      lower_keys)

text \<open>
  C1, amended. For every flow with a response available whose intercepted-marker header
  reads exactly \<open>cyber-drill-gateway\<close>, or whose request carries neither reserved
  header, the response hook completes and neither reserved header is present on the
  request afterwards. In particular, the request phase followed by the response phase
  leaves no reserved header on a flow that was intercepted, and none on a flow that was
  not intercepted and arrived without them.
\<close>

theorem markers_stripped:
  "((headers_get (headers (request f)) ''X-Intercepted-By'' = Some ''cyber-drill-gateway''
       \<or> no_marker_headers (headers (request f)))
      \<and> response f = Some r
    \<longrightarrow> (\<exists>f2 lg2. GatewayInterceptor_response f = Inr (f2, lg2)
           \<and> no_marker_headers (headers (request f2))))
   \<and> (should_intercept cfg (ph (request g)) (path (request g))
        \<or> no_marker_headers (headers (request g))
    \<longrightarrow> (\<exists>f2 lg2.
           GatewayInterceptor_response
             ((fst (GatewayInterceptor_request cfg ph pu g))\<lparr>response := Some r\<rparr>) = Inr (f2, lg2)
           \<and> no_marker_headers (headers (request f2))))"
proof (intro conjI impI)
  assume "(headers_get (headers (request f)) ''X-Intercepted-By'' = Some ''cyber-drill-gateway''
       \<or> no_marker_headers (headers (request f))) \<and> response f = Some r"
  then show "\<exists>f2 lg2. GatewayInterceptor_response f = Inr (f2, lg2)
           \<and> no_marker_headers (headers (request f2))"
    using response_strips [of f r] by blast
next
  let ?g = "(fst (GatewayInterceptor_request cfg ph pu g))\<lparr>response := Some r\<rparr>"
  assume "should_intercept cfg (ph (request g)) (path (request g))
        \<or> no_marker_headers (headers (request g))"
  with request_marks_or_keeps [of cfg ph g pu]
  have "headers_get (headers (request ?g)) ''X-Intercepted-By'' = Some ''cyber-drill-gateway''
        \<or> no_marker_headers (headers (request ?g))"
    by simp
  moreover have "response ?g = Some r" by simp
  ultimately show "\<exists>f2 lg2. GatewayInterceptor_response ?g = Inr (f2, lg2)
           \<and> no_marker_headers (headers (request f2))"
    by (rule response_strips)
qed

theorem markers_stripped_witness:
  "headers_get
     (headers (request (sample_flow ''127.0.0.1''
        marked_headers
        (Some \<lparr>status_code = 200\<rparr>))))
     ''X-Intercepted-By'' = Some ''cyber-drill-gateway''
   \<and> response (sample_flow ''127.0.0.1''
        marked_headers
        (Some \<lparr>status_code = 200\<rparr>)) = Some \<lparr>status_code = 200\<rparr>
   \<and> (\<exists>f2 lg2.
         GatewayInterceptor_response
           (sample_flow ''127.0.0.1''
              marked_headers
              (Some \<lparr>status_code = 200\<rparr>)) = Inr (f2, lg2)
         \<and> no_marker_headers (headers (request f2)))
   \<and> should_intercept default_config (host (request (sample_flow ''api.codeium.com'' [] None)))
        (path (request (sample_flow ''api.codeium.com'' [] None)))
   \<and> (\<exists>f2 lg2.
         GatewayInterceptor_response
           ((fst (GatewayInterceptor_request default_config host sample_url
                    (sample_flow ''api.codeium.com'' [] None)))
            \<lparr>response := Some \<lparr>status_code = 200\<rparr>\<rparr>) = Inr (f2, lg2)
         \<and> no_marker_headers (headers (request f2)))"
  using markers_stripped
          [of "sample_flow ''127.0.0.1''
                 marked_headers
                 (Some \<lparr>status_code = 200\<rparr>)"
              "\<lparr>status_code = 200\<rparr>"
              default_config host "sample_flow ''api.codeium.com'' [] None" sample_url]
        marked_headers_get
  by (simp add: should_intercept_def domain_match_def rule_matches_def default_config_def
      sample_flow_def sample_request_def)



text \<open>
  C9. The response hook compares the value of the intercepted-marker header. If it logged
  anything or changed the flow, the header read exactly \<open>cyber-drill-gateway\<close>. A flow
  whose header reads anything else is returned unchanged, with the header still present
  and no log record. A flow whose header reads exactly that value, with a response
  available, gets one response log record and loses both reserved headers.
\<close>

theorem marker_compared_by_value:
  "(GatewayInterceptor_response f = Inr (f', lg) \<and> (lg \<noteq> [] \<or> f' \<noteq> f)
      \<longrightarrow> headers_get (headers (request f)) ''X-Intercepted-By'' = Some ''cyber-drill-gateway'')
   \<and> (headers_get (headers (request f)) ''X-Intercepted-By'' = Some v
        \<and> v \<noteq> ''cyber-drill-gateway''
      \<longrightarrow> GatewayInterceptor_response f = Inr (f, [])
          \<and> headers_contains (headers (request f)) ''X-Intercepted-By'')
   \<and> (headers_get (headers (request f)) ''X-Intercepted-By'' = Some ''cyber-drill-gateway''
        \<and> response f = Some r
      \<longrightarrow> (\<exists>f2 oh. GatewayInterceptor_response f
                       = Inr (f2, [LogResponse oh (path (request f)) (status_code r)])
                     \<and> no_marker_headers (headers (request f2))))"
proof -
  let ?m = "headers_get (headers (request f)) ''X-Intercepted-By''"
  have only: "?m = Some ''cyber-drill-gateway''"
    if a: "GatewayInterceptor_response f = Inr (f', lg)" and b: "lg \<noteq> [] \<or> f' \<noteq> f"
  proof (rule ccontr)
    assume "?m \<noteq> Some ''cyber-drill-gateway''"
    from response_unmarked [OF this] a b show False by auto
  qed
  have other: "GatewayInterceptor_response f = Inr (f, [])
          \<and> headers_contains (headers (request f)) ''X-Intercepted-By''"
    if a: "?m = Some v" and b: "v \<noteq> ''cyber-drill-gateway''"
  proof -
    from a b have "?m \<noteq> Some ''cyber-drill-gateway''" by auto
    from response_unmarked [OF this] headers_get_contains [OF a] show ?thesis by simp
  qed
  have same: "\<exists>f2 oh. GatewayInterceptor_response f
                       = Inr (f2, [LogResponse oh (path (request f)) (status_code r)])
                     \<and> no_marker_headers (headers (request f2))"
    if m: "?m = Some ''cyber-drill-gateway''" and r: "response f = Some r"
    using response_marked [OF m r] by (simp add: no_marker_after_delete del: filter_filter)
  from only other same show ?thesis by blast
qed

theorem marker_compared_by_value_witness:
  "headers_get (headers (request (sample_flow ''example.com''
       [(''x-intercepted-by'', ''Cyber-Drill-Gateway'')] (Some \<lparr>status_code = 200\<rparr>))))
     ''X-Intercepted-By'' = Some ''Cyber-Drill-Gateway''
   \<and> ''Cyber-Drill-Gateway'' \<noteq> ''cyber-drill-gateway''
   \<and> GatewayInterceptor_response (sample_flow ''example.com''
       [(''x-intercepted-by'', ''Cyber-Drill-Gateway'')] (Some \<lparr>status_code = 200\<rparr>))
     = Inr (sample_flow ''example.com''
       [(''x-intercepted-by'', ''Cyber-Drill-Gateway'')] (Some \<lparr>status_code = 200\<rparr>), [])
   \<and> headers_contains (headers (request (sample_flow ''example.com''
       [(''x-intercepted-by'', ''Cyber-Drill-Gateway'')] (Some \<lparr>status_code = 200\<rparr>))))
       ''X-Intercepted-By''
   \<and> GatewayInterceptor_response
       (sample_flow ''127.0.0.1''
          marked_headers
          (Some \<lparr>status_code = 200\<rparr>))
     = Inr (sample_flow ''127.0.0.1'' [(''Accept'', ''*/*'')] (Some \<lparr>status_code = 200\<rparr>),
            [LogResponse ''api.codeium.com'' ''/v1/chat/completions?stream=1'' 200])
   \<and> headers_get
       (headers (request (sample_flow ''127.0.0.1''
          marked_headers
          (Some \<lparr>status_code = 200\<rparr>))))
       ''X-Intercepted-By'' = Some ''cyber-drill-gateway''"
  using marker_compared_by_value
          [of "sample_flow ''example.com''
                 [(''x-intercepted-by'', ''Cyber-Drill-Gateway'')] (Some \<lparr>status_code = 200\<rparr>)"
              "sample_flow ''example.com''
                 [(''x-intercepted-by'', ''Cyber-Drill-Gateway'')] (Some \<lparr>status_code = 200\<rparr>)"
              "[]" "''Cyber-Drill-Gateway''" "\<lparr>status_code = 200\<rparr>"]
        marker_compared_by_value
          [of "sample_flow ''127.0.0.1''
                 marked_headers
                 (Some \<lparr>status_code = 200\<rparr>)"
              "sample_flow ''127.0.0.1'' [(''Accept'', ''*/*'')] (Some \<lparr>status_code = 200\<rparr>)"
              "[LogResponse ''api.codeium.com'' ''/v1/chat/completions?stream=1'' 200]"
              "''cyber-drill-gateway''" "\<lparr>status_code = 200\<rparr>"]
        response_sample_marked marked_headers_get
  by (simp add: sample_flow_def sample_request_def headers_get_def get_all_def lower_keys
      lower_lit)

section \<open>The rewriter\<close>

text \<open>
  C5, as the claim states it, fails: on a matched request that carries a \<open>Host\<close>
  header, a header that is none of \<open>Authorization\<close> and the two marker headers, the
  rewrite changes the value of that header from the original host to the gateway's host
  and port.
\<close>

theorem host_header_changed_counterexample:
  "should_intercept default_config
     (host (request (sample_flow ''api.codeium.com''
        [(''Host'', ''api.codeium.com''), (''Accept'', ''*/*'')] None)))
     (path (request (sample_flow ''api.codeium.com''
        [(''Host'', ''api.codeium.com''), (''Accept'', ''*/*'')] None)))
   \<and> get_all
       (headers (request (sample_flow ''api.codeium.com''
          [(''Host'', ''api.codeium.com''), (''Accept'', ''*/*'')] None)))
       ''Host'' = [''api.codeium.com'']
   \<and> get_all
       (headers (request (fst (GatewayInterceptor_request default_config host sample_url
          (sample_flow ''api.codeium.com''
             [(''Host'', ''api.codeium.com''), (''Accept'', ''*/*'')] None)))))
       ''Host'' = [''127.0.0.1:18790'']"
  using sample_host_rewritten
  by (simp add: should_intercept_def domain_match_def rule_matches_def default_config_def
      sample_flow_def sample_request_def get_all_def lower_host lower_accept)

text \<open>
  C5, amended. For a matched flow the request hook returns the flow with the scheme, host
  and port of its request replaced by the gateway's, and with a new authority and a new
  header collection. Through the engine's setters of host and port, a non-empty
  authority becomes the gateway's host and port and an existing \<open>Host\<close> header gets
  that single value; an empty authority stays empty and no \<open>Host\<close> header is added.
  Every header field whose name is none of \<open>Authorization\<close>, \<open>X-Original-Host\<close>,
  \<open>X-Intercepted-By\<close> and \<open>Host\<close> (compared without case) is kept, in the same
  order. The path with its query string, the method, the body and the response are
  unchanged.
\<close>

theorem rewrite_frame:
  assumes "should_intercept cfg (ph (request f)) (path (request f))"
    and "GatewayInterceptor_request cfg ph pu f = (f', lg)"
  shows "(\<exists>hs'. f' = f\<lparr>request := (request f)
                        \<lparr>scheme := GATEWAY_SCHEME (parsed cfg),
                         host := GATEWAY_HOST (parsed cfg),
                         port := GATEWAY_PORT (parsed cfg),
                         authority :=
                           (if authority (request f) = [] then []
                            else hostport (GATEWAY_SCHEME (parsed cfg))
                                   (GATEWAY_HOST (parsed cfg)) (GATEWAY_PORT (parsed cfg))),
                         headers := hs'\<rparr>\<rparr>
            \<and> filter (\<lambda>fld. lower (fst fld) \<notin>
                         {lower ''Authorization'', lower ''X-Original-Host'',
                          lower ''X-Intercepted-By'', lower ''Host''}) hs'
              = filter (\<lambda>fld. lower (fst fld) \<notin>
                         {lower ''Authorization'', lower ''X-Original-Host'',
                          lower ''X-Intercepted-By'', lower ''Host''}) (headers (request f))
            \<and> get_all hs' ''Host''
              = (if headers_contains (headers (request f)) ''Host''
                 then [hostport (GATEWAY_SCHEME (parsed cfg))
                         (GATEWAY_HOST (parsed cfg)) (GATEWAY_PORT (parsed cfg))]
                 else []))
         \<and> path (request f') = path (request f)
         \<and> http_method (request f') = http_method (request f)
         \<and> content (request f') = content (request f)
         \<and> response f' = response f"
proof -
  let ?P = "\<lambda>fld. lower (fst fld) \<notin>
              {lower ''Authorization'', lower ''X-Original-Host'', lower ''X-Intercepted-By'',
               lower ''Host''}"
  let ?gs = "GATEWAY_SCHEME (parsed cfg)"
  let ?gh = "GATEWAY_HOST (parsed cfg)"
  let ?gp = "GATEWAY_PORT (parsed cfg)"
  let ?r = "set_port (set_host (set_scheme (request f) ?gs) ?gh) ?gp"
  let ?h0 = "if headers_contains (headers (request f)) ''Host''
             then headers_setitem
                    (headers_setitem (headers (request f)) ''Host''
                       (hostport ?gs ?gh (port (request f))))
                    ''Host'' (hostport ?gs ?gh ?gp)
             else headers (request f)"
  let ?h1 = "headers_setitem ?h0 ''Authorization'' (''Bearer '' @ GATEWAY_TOKEN cfg)"
  let ?h2 = "headers_setitem ?h1 ''X-Original-Host'' (ph (request f))"
  let ?h3 = "headers_setitem ?h2 ''X-Intercepted-By'' ''cyber-drill-gateway''"
  have r: "?r = (request f)
                  \<lparr>scheme := ?gs, host := ?gh, port := ?gp,
                   authority := (if authority (request f) = [] then [] else hostport ?gs ?gh ?gp),
                   headers := ?h0\<rparr>"
    by (rule destination_rewritten) (rule GATEWAY_HOST_nonempty)
  have f': "f' = f\<lparr>request := (request f)
                      \<lparr>scheme := ?gs, host := ?gh, port := ?gp,
                       authority := (if authority (request f) = [] then [] else hostport ?gs ?gh ?gp),
                       headers := ?h3\<rparr>\<rparr>"
    using assms(2) unfolding request_intercepted [of cfg ph f pu, OF assms(1)] r by auto
  have "filter ?P ?h3 = filter ?P ?h2"
    by (rule filter_setitem_others) simp
  also have "\<dots> = filter ?P ?h1"
    by (rule filter_setitem_others) simp
  also have "\<dots> = filter ?P ?h0"
    by (rule filter_setitem_others) simp
  also have "\<dots> = filter ?P (headers (request f))"
    by (rule other_headers_kept) simp
  finally have fr: "filter ?P ?h3 = filter ?P (headers (request f))" .
  have "get_all ?h3 ''Host'' = get_all ?h2 ''Host''"
    by (rule get_all_setitem_other) (simp add: lower_keys lower_host)
  also have "\<dots> = get_all ?h1 ''Host''"
    by (rule get_all_setitem_other) (simp add: lower_keys lower_host)
  also have "\<dots> = get_all ?h0 ''Host''"
    by (rule get_all_setitem_other) (simp add: lower_keys lower_host)
  also have "\<dots> = (if headers_contains (headers (request f)) ''Host''
                      then [hostport ?gs ?gh ?gp] else [])"
    by (rule host_header_rewritten)
  finally have ho: "get_all ?h3 ''Host''
      = (if headers_contains (headers (request f)) ''Host'' then [hostport ?gs ?gh ?gp] else [])" .
  have ex: "\<exists>hs'. f' = f\<lparr>request := (request f)
                        \<lparr>scheme := ?gs, host := ?gh, port := ?gp,
                         authority :=
                           (if authority (request f) = [] then [] else hostport ?gs ?gh ?gp),
                         headers := hs'\<rparr>\<rparr>
            \<and> filter ?P hs' = filter ?P (headers (request f))
            \<and> get_all hs' ''Host''
              = (if headers_contains (headers (request f)) ''Host''
                 then [hostport ?gs ?gh ?gp] else [])"
    using f' fr ho by blast
  have rest: "path (request f') = path (request f)
         \<and> http_method (request f') = http_method (request f)
         \<and> content (request f') = content (request f)
         \<and> response f' = response f"
    unfolding f' by simp
  from ex rest show ?thesis by (rule conjI)
qed

theorem rewrite_frame_witness:
  "should_intercept default_config
     (host (request (sample_flow ''api.codeium.com''
        [(''Host'', ''api.codeium.com''), (''Accept'', ''*/*'')] None)))
     (path (request (sample_flow ''api.codeium.com''
        [(''Host'', ''api.codeium.com''), (''Accept'', ''*/*'')] None)))
   \<and> path (request (fst (GatewayInterceptor_request default_config host sample_url
        (sample_flow ''api.codeium.com''
           [(''Host'', ''api.codeium.com''), (''Accept'', ''*/*'')] None))))
     = ''/v1/chat/completions?stream=1''
   \<and> http_method (request (fst (GatewayInterceptor_request default_config host sample_url
        (sample_flow ''api.codeium.com''
           [(''Host'', ''api.codeium.com''), (''Accept'', ''*/*'')] None))))
     = ''POST''
   \<and> content (request (fst (GatewayInterceptor_request default_config host sample_url
        (sample_flow ''api.codeium.com''
           [(''Host'', ''api.codeium.com''), (''Accept'', ''*/*'')] None))))
     = ''{}''
   \<and> response (fst (GatewayInterceptor_request default_config host sample_url
        (sample_flow ''api.codeium.com''
           [(''Host'', ''api.codeium.com''), (''Accept'', ''*/*'')] None)))
     = None"
  using rewrite_frame [of default_config host
          "sample_flow ''api.codeium.com''
             [(''Host'', ''api.codeium.com''), (''Accept'', ''*/*'')] None"
          sample_url
          "fst (GatewayInterceptor_request default_config host sample_url
             (sample_flow ''api.codeium.com''
                [(''Host'', ''api.codeium.com''), (''Accept'', ''*/*'')] None))"
          "snd (GatewayInterceptor_request default_config host sample_url
             (sample_flow ''api.codeium.com''
                [(''Host'', ''api.codeium.com''), (''Accept'', ''*/*'')] None))"]
  by (simp add: should_intercept_def domain_match_def rule_matches_def default_config_def
      sample_flow_def sample_request_def)

text \<open>
  C6. For a matched flow, after the rewrite the request has exactly one
  \<open>Authorization\<close> value, \<open>Bearer\<close> followed by a space and the gateway token,
  whatever \<open>Authorization\<close> fields the client sent.
\<close>

theorem authorization_replaced:
  assumes "should_intercept cfg (ph (request f)) (path (request f))"
    and "GatewayInterceptor_request cfg ph pu f = (f', lg)"
  shows "get_all (headers (request f')) ''Authorization'' = [''Bearer '' @ GATEWAY_TOKEN cfg]
         \<and> headers_get (headers (request f')) ''Authorization''
             = Some (''Bearer '' @ GATEWAY_TOKEN cfg)"
proof -
  let ?h0 = "headers
               (set_port
                  (set_host (set_scheme (request f) (GATEWAY_SCHEME (parsed cfg)))
                     (GATEWAY_HOST (parsed cfg)))
                  (GATEWAY_PORT (parsed cfg)))"
  let ?h1 = "headers_setitem ?h0 ''Authorization'' (''Bearer '' @ GATEWAY_TOKEN cfg)"
  let ?h2 = "headers_setitem ?h1 ''X-Original-Host'' (ph (request f))"
  let ?h3 = "headers_setitem ?h2 ''X-Intercepted-By'' ''cyber-drill-gateway''"
  have hs: "headers (request f') = ?h3"
    using assms by (auto simp: request_intercepted)
  have "get_all ?h3 ''Authorization'' = get_all ?h2 ''Authorization''"
    unfolding headers_setitem_def [of ?h2] by (rule get_all_set_all_other) (simp add: lower_keys)
  also have "\<dots> = get_all ?h1 ''Authorization''"
    unfolding headers_setitem_def [of ?h1] by (rule get_all_set_all_other) (simp add: lower_keys)
  also have "\<dots> = [''Bearer '' @ GATEWAY_TOKEN cfg]"
    unfolding headers_setitem_def by (rule get_all_set_all)
  finally have ga: "get_all ?h3 ''Authorization'' = [''Bearer '' @ GATEWAY_TOKEN cfg]" .
  with hs show ?thesis by (simp add: headers_get_def)
qed

theorem authorization_replaced_witness:
  "should_intercept default_config
     (host (request (sample_flow ''api.codeium.com''
        [(''authorization'', ''Bearer client''), (''AUTHORIZATION'', ''Basic abc'')] None)))
     (path (request (sample_flow ''api.codeium.com''
        [(''authorization'', ''Bearer client''), (''AUTHORIZATION'', ''Basic abc'')] None)))
   \<and> get_all (headers (request (fst (GatewayInterceptor_request default_config host sample_url
        (sample_flow ''api.codeium.com''
           [(''authorization'', ''Bearer client''), (''AUTHORIZATION'', ''Basic abc'')] None)))))
        ''Authorization''
     = [''Bearer sk-deploy-001'']"
  using authorization_replaced [of default_config host
          "sample_flow ''api.codeium.com''
             [(''authorization'', ''Bearer client''), (''AUTHORIZATION'', ''Basic abc'')] None"
          sample_url
          "fst (GatewayInterceptor_request default_config host sample_url
             (sample_flow ''api.codeium.com''
                [(''authorization'', ''Bearer client''), (''AUTHORIZATION'', ''Basic abc'')] None))"
          "snd (GatewayInterceptor_request default_config host sample_url
             (sample_flow ''api.codeium.com''
                [(''authorization'', ''Bearer client''), (''AUTHORIZATION'', ''Basic abc'')] None))"]
  by (simp add: should_intercept_def domain_match_def rule_matches_def default_config_def
      sample_flow_def sample_request_def)

section \<open>The gateway target\<close>

text \<open>
  C8. The resolved target of a URL is made of the three derived constants. The host is
  the loopback address when the parsed URL has no host; the port is 443 for the scheme
  \<open>https\<close> and 80 otherwise when the parsed URL has no port. The URL
  \<open>http://1.2.3.4:18790\<close> resolves to scheme \<open>http\<close>, host \<open>1.2.3.4\<close>, port 18790,
  and \<open>https://gw.example.com\<close> resolves to port 443.
\<close>

theorem gateway_target_defaults:
  "(urlparse url = Inr p \<longrightarrow>
      gateway_target url = Inr (GATEWAY_SCHEME p, GATEWAY_HOST p, GATEWAY_PORT p))
   \<and> (parsed_hostname p = None \<or> parsed_hostname p = Some [] \<longrightarrow>
        GATEWAY_HOST p = ''127.0.0.1'')
   \<and> (parsed_port p = None \<and> parsed_scheme p = ''https'' \<longrightarrow> GATEWAY_PORT p = 443)
   \<and> (parsed_port p = None \<and> parsed_scheme p \<noteq> ''https'' \<longrightarrow> GATEWAY_PORT p = 80)
   \<and> gateway_target ''http://1.2.3.4:18790'' = Inr (''http'', ''1.2.3.4'', 18790)
   \<and> gateway_target ''https://gw.example.com'' = Inr (''https'', ''gw.example.com'', 443)"
proof -
  have a: "gateway_target ''http://1.2.3.4:18790'' = Inr (''http'', ''1.2.3.4'', 18790)"
    by code_simp
  have b: "gateway_target ''https://gw.example.com'' = Inr (''https'', ''gw.example.com'', 443)"
    by code_simp
  show ?thesis
    using a b by (simp add: gateway_target_def GATEWAY_HOST_def GATEWAY_PORT_def)
qed

theorem gateway_target_defaults_witness:
  "urlparse ''https://''
     = Inr \<lparr>parsed_scheme = ''https'', parsed_hostname = None, parsed_port = None\<rparr>
   \<and> gateway_target ''https://'' = Inr (''https'', ''127.0.0.1'', 443)
   \<and> urlparse ''http://''
     = Inr \<lparr>parsed_scheme = ''http'', parsed_hostname = None, parsed_port = None\<rparr>
   \<and> gateway_target ''http://'' = Inr (''http'', ''127.0.0.1'', 80)"
  using gateway_target_defaults
          [of "''https://''"
              "\<lparr>parsed_scheme = ''https'', parsed_hostname = None, parsed_port = None\<rparr>"]
        gateway_target_defaults
          [of "''http://''"
              "\<lparr>parsed_scheme = ''http'', parsed_hostname = None, parsed_port = None\<rparr>"]
        urlparse_no_host urlparse_http_no_host
  by (simp add: GATEWAY_SCHEME_def)

end
